theory Spec2Isabelle
  imports Main
begin

section \<open>Byte strings and the path functions of the standard library\<close>

text \<open>
  The packer works on Python \<open>bytes\<close>; they are modelled as \<open>string\<close> (a list of
  characters, one per byte). The functions of \<open>os.path\<close> that the packer calls are
  the POSIX ones; they are written out below from their library definitions.
\<close>

type_synonym bytes = string

datatype error =
    IOError
  | KeyError
  | TypeError
  | AttributeError
  | AssertionError
  | SameFileError
  | OutOfFuel

text \<open>
  A call returns \<open>Inr\<close> of its result or \<open>Inl\<close> of the exception that ended it.
  \<open>OutOfFuel\<close> is no exception of the program: it is the value of a run for which the
  fuel given to the model did not suffice.
\<close>

definition bind_e :: "error + 'a \<Rightarrow> ('a \<Rightarrow> error + 'b) \<Rightarrow> error + 'b" where
  "bind_e m f = (case m of Inl e \<Rightarrow> Inl e | Inr x \<Rightarrow> f x)"

text \<open>\<open>path.startswith(prefix)\<close>\<close>

fun startswith :: "bytes \<Rightarrow> bytes \<Rightarrow> bool" where
  "startswith s [] = True"
| "startswith [] (p # ps) = False"
| "startswith (c # cs) (p # ps) = (c = p \<and> startswith cs ps)"

text \<open>\<open>s.split(sep)\<close> for a separator of one byte: never the empty list.\<close>

fun split :: "char \<Rightarrow> bytes \<Rightarrow> bytes list" where
  "split sep [] = [[]]"
| "split sep (c # cs) =
     (if c = sep then [] # split sep cs
      else (case split sep cs of
              [] \<Rightarrow> [[c]]
            | piece # pieces \<Rightarrow> (c # piece) # pieces))"

text \<open>\<open>os.path.join(a, b)\<close> with two arguments.\<close>

definition os_path_join :: "bytes \<Rightarrow> bytes \<Rightarrow> bytes" where
  "os_path_join a b =
     (if startswith b ''/'' then b
      else if a = [] \<or> last a = CHR ''/'' then a @ b
      else a @ ''/'' @ b)"

text \<open>\<open>os.path.basename(p)\<close>: what follows the last slash.\<close>

definition os_path_basename :: "bytes \<Rightarrow> bytes" where
  "os_path_basename p = rev (takeWhile (\<lambda>c. c \<noteq> CHR ''/'') (rev p))"

text \<open>
  \<open>os.path.dirname(p)\<close>: the part up to the last slash, with trailing slashes removed
  unless it consists of slashes only.
\<close>

definition os_path_dirname :: "bytes \<Rightarrow> bytes" where
  "os_path_dirname p =
     (let head = rev (dropWhile (\<lambda>c. c \<noteq> CHR ''/'') (rev p))
      in if head \<noteq> [] \<and> head \<noteq> replicate (length head) (CHR ''/'')
         then rev (dropWhile (\<lambda>c. c = CHR ''/'') (rev head))
         else head)"

text \<open>\<open>os.path.normpath(p)\<close>: the component loop works on a reversed stack.\<close>

fun normpath_comps :: "bool \<Rightarrow> bytes list \<Rightarrow> bytes list \<Rightarrow> bytes list" where
  "normpath_comps initial_slashes new_comps [] = rev new_comps"
| "normpath_comps initial_slashes new_comps (part # comps) =
     (if part = [] \<or> part = ''.'' then normpath_comps initial_slashes new_comps comps
      else if part \<noteq> ''..'' \<or> (\<not> initial_slashes \<and> new_comps = [])
                \<or> (new_comps \<noteq> [] \<and> hd new_comps = ''..'')
           then normpath_comps initial_slashes (part # new_comps) comps
      else if new_comps \<noteq> [] then normpath_comps initial_slashes (tl new_comps) comps
      else normpath_comps initial_slashes new_comps comps)"

fun join_sep :: "bytes list \<Rightarrow> bytes" where
  "join_sep [] = []"
| "join_sep [x] = x"
| "join_sep (x # y # ys) = x @ ''/'' @ join_sep (y # ys)"

definition os_path_normpath :: "bytes \<Rightarrow> bytes" where
  "os_path_normpath p =
     (if p = [] then ''.''
      else
        let initial_slashes =
              (if startswith p ''/'' then
                 (if startswith p ''//'' \<and> \<not> startswith p ''///'' then 2 else 1)
               else (0::nat));
            comps = normpath_comps (initial_slashes \<noteq> 0) [] (split (CHR ''/'') p);
            path = replicate initial_slashes (CHR ''/'') @ join_sep comps
        in if path = [] then ''.'' else path)"

text \<open>\<open>os.path.abspath(p)\<close>; the working directory of the process is a parameter.\<close>

definition os_path_abspath :: "bytes \<Rightarrow> bytes \<Rightarrow> bytes" where
  "os_path_abspath cwd p =
     os_path_normpath (if startswith p ''/'' then p else os_path_join cwd p)"

section \<open>utils.abspath\<close>

definition abspath :: "bytes \<Rightarrow> bytes \<Rightarrow> bytes" where
  "abspath path start =
     (if startswith path ''//'' then os_path_join start (drop 2 path) else path)"

section \<open>The block store\<close>

text \<open>
  The decoder of the binary format (module \<open>blendfile\<close>) is an external collaborator.
  What the packer uses of it is modelled here: a file on disk is a list of records, each
  with a type tag, an address, a file offset and named fields holding byte strings or
  integers (scalars and addresses); the raw pointers that \<open>DNA_IO.read_pointer\<close> can read
  at a file offset are kept in a table of the file.
\<close>

datatype fieldval = VBytes bytes | VInt int

record blockdata =
  d_code :: bytes
  d_addr_old :: int
  d_file_offset :: nat
  d_fields :: "(bytes \<times> fieldval) list"

record blenddata =
  d_pointer_size :: nat
  d_blocks :: "blockdata list"
  d_pointers :: "(nat \<times> int) list"

datatype fnode = Blend blenddata | Other bytes

text \<open>
  A block object, as \<open>open_blend\<close> creates it: the header is read once, the fields are
  read from and written to the file handle at every access.
\<close>

record block =
  b_file :: bytes
  b_writable :: bool
  b_index :: nat
  b_code :: bytes
  b_addr_old :: int
  b_file_offset :: nat

record blendfile =
  h_path :: bytes
  h_pointer_size :: nat
  h_blocks :: "block list"

record FilePath =
  fp_block :: block
  fp_path :: bytes
  fp_basedir :: bytes

text \<open>
  Of the lines that the program prints, the model keeps the trace of the files and
  libraries visited and the lines of the copy loop; the lines that only show a type tag
  or a record are left out.
\<close>

datatype message =
    Opening nat bytes "fieldval set option"
  | Library nat bytes bytes "fieldval set"
  | SourceMissing bytes
  | Copying bytes bytes
  | Written bytes

text \<open>
  The state that the packer changes: the file system (a flat map from paths to files),
  the two sets that \<open>pack\<close> keeps in its closure (in insertion order), and what is printed.
  Two logs are kept beside them: every call of \<open>open_blend\<close> with its path and read-only
  flag, and every pair handed to the consumer of the generator.
\<close>

record world =
  fs :: "bytes \<rightharpoonup> fnode"
  path_temp_files :: "bytes list"
  path_copy_files :: "(bytes \<times> bytes) list"
  opened :: "(bytes \<times> bool) list"
  yielded :: "(FilePath \<times> bytes) list"
  printed :: "message list"

definition print :: "message \<Rightarrow> world \<Rightarrow> world" where
  "print msg w = w\<lparr>printed := printed w @ [msg]\<rparr>"

text \<open>\<open>for x in xs: body\<close>, stopping at the first exception.\<close>

fun for_each :: "('a \<Rightarrow> 's \<Rightarrow> error + 's) \<Rightarrow> 'a list \<Rightarrow> 's \<Rightarrow> error + 's" where
  "for_each body [] s = Inr s"
| "for_each body (x # xs) s = bind_e (body x s) (for_each body xs)"

text \<open>\<open>some_set.add(x)\<close> on a set kept in insertion order.\<close>

definition set_add :: "'a \<Rightarrow> 'a list \<Rightarrow> 'a list" where
  "set_add x xs = (if x \<in> set xs then xs else xs @ [x])"

text \<open>
  Modelled from the spec: \<open>blendfile.open_blend(path, mode)\<close> fails with an I/O error when
  the path does not exist or is not a file of the format.
\<close>

definition mk_block :: "bytes \<Rightarrow> bool \<Rightarrow> nat \<times> blockdata \<Rightarrow> block" where
  "mk_block p readonly ib =
     \<lparr>b_file = p, b_writable = (\<not> readonly), b_index = fst ib, b_code = d_code (snd ib),
      b_addr_old = d_addr_old (snd ib), b_file_offset = d_file_offset (snd ib)\<rparr>"

definition open_blend :: "bytes \<Rightarrow> bool \<Rightarrow> world \<Rightarrow> error + (blendfile \<times> world)" where
  "open_blend p readonly w =
     (case fs w p of
        Some (Blend f) \<Rightarrow>
          Inr (\<lparr>h_path = p, h_pointer_size = d_pointer_size f,
                h_blocks = map (mk_block p readonly) (enumerate 0 (d_blocks f))\<rparr>,
               w\<lparr>opened := opened w @ [(p, readonly)]\<rparr>)
      | _ \<Rightarrow> Inl IOError)"

text \<open>Modelled from the spec: \<open>blend.code_index.keys()\<close>, the type tags in file order.\<close>

definition code_index_keys :: "blendfile \<Rightarrow> bytes list" where
  "code_index_keys h = rev (remdups (rev (map b_code (h_blocks h))))"

text \<open>Modelled from the spec: \<open>blend.find_blocks_from_code(code)\<close>.\<close>

definition find_blocks_from_code :: "blendfile \<Rightarrow> bytes \<Rightarrow> block list" where
  "find_blocks_from_code h c = filter (\<lambda>b. b_code b = c) (h_blocks h)"

text \<open>
  Modelled from the spec: \<open>blend.find_block_from_offset(address)\<close>, the record stored at
  an address, \<open>None\<close> when there is none.
\<close>

definition find_block_from_offset :: "blendfile \<Rightarrow> int \<Rightarrow> block option" where
  "find_block_from_offset h a = find (\<lambda>b. b_addr_old b = a) (h_blocks h)"

text \<open>Modelled from the spec: \<open>block[name]\<close> and \<open>block.get(name)\<close>; a missing field raises.\<close>

definition block_data :: "world \<Rightarrow> block \<Rightarrow> error + blockdata" where
  "block_data w b =
     (case fs w (b_file b) of
        Some (Blend f) \<Rightarrow>
          (if b_index b < length (d_blocks f) then Inr (d_blocks f ! b_index b) else Inl IOError)
      | _ \<Rightarrow> Inl IOError)"

definition block_get :: "world \<Rightarrow> block \<Rightarrow> bytes \<Rightarrow> error + fieldval" where
  "block_get w b name =
     bind_e (block_data w b) (\<lambda>d.
       case map_of (d_fields d) name of None \<Rightarrow> Inl KeyError | Some v \<Rightarrow> Inr v)"

text \<open>
  Modelled from the spec: \<open>block[name] = value\<close>, allowed on a file opened for writing;
  the other fields and records of the file are left as they are.
\<close>

definition set_field :: "bytes \<Rightarrow> fieldval \<Rightarrow> blockdata \<Rightarrow> blockdata" where
  "set_field name v d =
     d\<lparr>d_fields := map (\<lambda>(n, x). if n = name then (n, v) else (n, x)) (d_fields d)\<rparr>"

definition block_set :: "block \<Rightarrow> bytes \<Rightarrow> fieldval \<Rightarrow> world \<Rightarrow> error + world" where
  "block_set b name v w =
     (if \<not> b_writable b then Inl IOError
      else
        case fs w (b_file b) of
          Some (Blend f) \<Rightarrow>
            (if b_index b < length (d_blocks f) then
               (case map_of (d_fields (d_blocks f ! b_index b)) name of
                  None \<Rightarrow> Inl KeyError
                | Some old \<Rightarrow>
                    Inr (w\<lparr>fs := (fs w)(b_file b \<mapsto>
                           Blend (f\<lparr>d_blocks :=
                             (d_blocks f)[b_index b := set_field name v (d_blocks f ! b_index b)]\<rparr>))\<rparr>))
             else Inl IOError)
        | _ \<Rightarrow> Inl IOError)"

text \<open>
  Modelled from the spec: \<open>block.get_pointer(name)\<close>, the record at the address a field
  holds; \<open>None\<close> for the null address and for an address where no record is stored. A
  field that holds a byte string is no pointer and raises.
\<close>

definition get_pointer :: "world \<Rightarrow> blendfile \<Rightarrow> block \<Rightarrow> bytes \<Rightarrow> error + block option" where
  "get_pointer w h b name =
     bind_e (block_get w b name) (\<lambda>v.
       case v of
         VBytes x \<Rightarrow> Inl TypeError
       | VInt a \<Rightarrow> if a \<noteq> 0 then Inr (find_block_from_offset h a) else Inr None)"

text \<open>Modelled from the spec: \<open>DNA_IO.read_pointer\<close> after a seek to a file offset.\<close>

definition read_pointer :: "world \<Rightarrow> blendfile \<Rightarrow> nat \<Rightarrow> error + int" where
  "read_pointer w h off =
     (case fs w (h_path h) of
        Some (Blend f) \<Rightarrow>
          (case map_of (d_pointers f) off of None \<Rightarrow> Inl IOError | Some a \<Rightarrow> Inr a)
      | _ \<Rightarrow> Inl IOError)"

section \<open>FilePath\<close>

text \<open>The property \<open>filepath\<close>: its getter and its setter.\<close>

definition filepath_get :: "FilePath \<Rightarrow> world \<Rightarrow> error + fieldval" where
  "filepath_get fp w = block_get w (fp_block fp) (fp_path fp)"

definition filepath_set :: "FilePath \<Rightarrow> fieldval \<Rightarrow> world \<Rightarrow> error + world" where
  "filepath_set fp v w = block_set (fp_block fp) (fp_path fp) v w"

subsection \<open>from_block\<close>

definition from_block_IM :: "block \<Rightarrow> bytes \<Rightarrow> bytes \<Rightarrow> (FilePath \<times> bytes) list" where
  "from_block_IM blk basedir rootdir =
     [(\<lparr>fp_block = blk, fp_path = ''name'', fp_basedir = basedir\<rparr>, rootdir)]"

definition from_block_LI :: "block \<Rightarrow> bytes \<Rightarrow> bytes \<Rightarrow> (FilePath \<times> bytes) list" where
  "from_block_LI blk basedir rootdir =
     [(\<lparr>fp_block = blk, fp_path = ''name'', fp_basedir = basedir\<rparr>, rootdir)]"

definition from_block_dict ::
  "(bytes \<times> (block \<Rightarrow> bytes \<Rightarrow> bytes \<Rightarrow> (FilePath \<times> bytes) list)) list" where
  "from_block_dict = [(''IM'', from_block_IM), (''LI'', from_block_LI)]"

definition from_block :: "block \<Rightarrow> bytes \<Rightarrow> bytes \<Rightarrow> error + (FilePath \<times> bytes) list" where
  "from_block blk basedir rootdir =
     (if b_code blk = ''DATA'' then Inl AssertionError
      else
        case map_of from_block_dict (b_code blk) of
          None \<Rightarrow> Inr []
        | Some fn \<Rightarrow> Inr (fn blk basedir rootdir))"

section \<open>bf_utils\<close>

text \<open>
  Generators are written in continuation style: a generator takes the body that its
  consumer runs at every \<open>yield\<close>, and the state is threaded through both, so that what
  the consumer writes is seen by the reads that follow. The state of the caller is a
  parameter, with the function that reads the world out of it. Loops that the data can
  keep running (a linked list, the recursion of an expansion) take fuel.
\<close>

fun iter_ListBase ::
  "nat \<Rightarrow> ('s \<Rightarrow> world) \<Rightarrow> blendfile \<Rightarrow> (block \<Rightarrow> 's \<Rightarrow> error + 's) \<Rightarrow> block option \<Rightarrow> 's
    \<Rightarrow> error + 's" where
  "iter_ListBase n getw h body None st = Inr st"
| "iter_ListBase 0 getw h body (Some blk) st = Inl OutOfFuel"
| "iter_ListBase (Suc n) getw h body (Some blk) st =
     bind_e (body blk st) (\<lambda>st1.
       bind_e (block_get (getw st1) blk ''next'') (\<lambda>nxt.
         case nxt of
           VBytes x \<Rightarrow> Inl TypeError
         | VInt a \<Rightarrow> iter_ListBase n getw h body (find_block_from_offset h a) st1))"

fun sequence_e :: "(error + 'a) list \<Rightarrow> error + 'a list" where
  "sequence_e [] = Inr []"
| "sequence_e (m # ms) = bind_e m (\<lambda>x. bind_e (sequence_e ms) (\<lambda>xs. Inr (x # xs)))"

text \<open>
  \<open>iter_array\<close> has one consumer, a loop that prints; the records it yields are returned
  as a list.
\<close>

definition iter_array ::
  "world \<Rightarrow> blendfile \<Rightarrow> block option \<Rightarrow> fieldval \<Rightarrow> error + block option list" where
  "iter_array w h blk len =
     (case blk of
        None \<Rightarrow> Inl AttributeError
      | Some b \<Rightarrow>
          if b_code b \<noteq> ''DATA'' then Inl AssertionError
          else
            case len of
              VBytes x \<Rightarrow> Inl TypeError
            | VInt n \<Rightarrow>
                sequence_e
                  (map (\<lambda>i. bind_e (read_pointer w h (b_file_offset b + h_pointer_size h * i))
                               (\<lambda>offset. Inr (find_block_from_offset h offset)))
                       [0 ..< nat n]))"

section \<open>ExpandID\<close>

definition expand_OB ::
  "('s \<Rightarrow> world) \<Rightarrow> blendfile \<Rightarrow> (block option \<Rightarrow> 's \<Rightarrow> error + 's) \<Rightarrow> block \<Rightarrow> 's
    \<Rightarrow> error + 's" where
  "expand_OB getw h yield blk st =
     bind_e (get_pointer (getw st) h blk ''data'') (\<lambda>sub_block. yield sub_block st)"

definition expand_ME ::
  "('s \<Rightarrow> world) \<Rightarrow> blendfile \<Rightarrow> (block option \<Rightarrow> 's \<Rightarrow> error + 's) \<Rightarrow> block \<Rightarrow> 's
    \<Rightarrow> error + 's" where
  "expand_ME getw h yield blk st =
     bind_e (block_get (getw st) blk ''totcol'') (\<lambda>array_len.
       if array_len \<noteq> VInt 0 then
         bind_e (get_pointer (getw st) h blk ''mat'') (\<lambda>mat.
           bind_e (iter_array (getw st) h mat array_len) (\<lambda>items. Inr st))
       else Inr st)"

definition expand_MA ::
  "(block option \<Rightarrow> 's \<Rightarrow> error + 's) \<Rightarrow> block \<Rightarrow> 's \<Rightarrow> error + 's" where
  "expand_MA yield blk st = Inr st"

definition expand_TE ::
  "(block option \<Rightarrow> 's \<Rightarrow> error + 's) \<Rightarrow> block \<Rightarrow> 's \<Rightarrow> error + 's" where
  "expand_TE yield blk st = Inr st"

text \<open>
  The index of the struct \<open>GroupObject\<close>, which \<open>expand_GR\<close> looks up first, belongs to
  the decoder; the fields \<open>ob\<close> and \<open>next\<close> of a group member are read by name.
\<close>

definition expand_GR ::
  "nat \<Rightarrow> ('s \<Rightarrow> world) \<Rightarrow> blendfile \<Rightarrow> (block option \<Rightarrow> 's \<Rightarrow> error + 's) \<Rightarrow> block \<Rightarrow> 's
    \<Rightarrow> error + 's" where
  "expand_GR n getw h yield blk st =
     bind_e (get_pointer (getw st) h blk ''gobject.first'') (\<lambda>first.
       iter_ListBase n getw h
         (\<lambda>gobj st1. bind_e (get_pointer (getw st1) h gobj ''ob'') (\<lambda>ob. yield ob st1))
         first st)"

definition expand_funcs ::
  "nat \<Rightarrow> ('s \<Rightarrow> world) \<Rightarrow> blendfile \<Rightarrow> (block option \<Rightarrow> 's \<Rightarrow> error + 's)
    \<Rightarrow> (bytes \<times> (block \<Rightarrow> 's \<Rightarrow> error + 's)) list" where
  "expand_funcs n getw h yield =
     [(''OB'', expand_OB getw h yield),
      (''ME'', expand_ME getw h yield),
      (''MA'', expand_MA yield),
      (''TE'', expand_TE yield),
      (''GR'', expand_GR n getw h yield)]"

text \<open>The records that a rule yields, in order: the rule run with a body that collects them.\<close>

definition yields_of ::
  "((world \<times> block option list \<Rightarrow> world) \<Rightarrow> blendfile
      \<Rightarrow> (block option \<Rightarrow> world \<times> block option list \<Rightarrow> error + world \<times> block option list)
      \<Rightarrow> block \<Rightarrow> world \<times> block option list \<Rightarrow> error + world \<times> block option list)
    \<Rightarrow> world \<Rightarrow> blendfile \<Rightarrow> block \<Rightarrow> error + block option list" where
  "yields_of rule w h blk =
     bind_e (rule fst h (\<lambda>sub st. Inr (fst st, snd st @ [sub])) blk (w, []))
       (\<lambda>st. Inr (snd st))"

section \<open>FilePath.visit_from_blend\<close>

type_synonym names = "fieldval set"
type_synonym consumer = "FilePath \<times> bytes \<Rightarrow> world \<Rightarrow> error + world"
type_synonym remap_cb = "bytes \<Rightarrow> world \<Rightarrow> error + (bytes \<times> world)"
type_synonym xstate = "names \<times> world"

text \<open>
  \<open>yield from FilePath.from_block(block, basedir, rootdir)\<close>: each pair is logged and
  handed to the consumer \<open>k\<close>, the body of the loop that drives the generator.
\<close>

definition yield_to :: "consumer \<Rightarrow> FilePath \<times> bytes \<Rightarrow> world \<Rightarrow> error + world" where
  "yield_to k r w = k r (w\<lparr>yielded := yielded w @ [r]\<rparr>)"

definition emit :: "consumer \<Rightarrow> bytes \<Rightarrow> bytes \<Rightarrow> block \<Rightarrow> world \<Rightarrow> error + world" where
  "emit k basedir rootdir blk w =
     bind_e (from_block blk basedir rootdir) (\<lambda>refs. for_each (yield_to k) refs w)"

definition emit_x :: "consumer \<Rightarrow> bytes \<Rightarrow> bytes \<Rightarrow> block \<Rightarrow> xstate \<Rightarrow> error + xstate" where
  "emit_x k basedir rootdir blk st =
     bind_e (emit k basedir rootdir blk (snd st)) (\<lambda>w. Inr (fst st, w))"

definition expand_codes_add_test :: "block \<Rightarrow> xstate \<Rightarrow> error + (bool \<times> xstate)" where
  "expand_codes_add_test blk st =
     bind_e (block_get (snd st) blk ''id.name'') (\<lambda>name.
       Inr (name \<notin> fst st, (insert name (fst st), snd st)))"

text \<open>\<open>block_expand\<close> when expansion is on: the state carries \<open>expand_codes\<close>.\<close>

primrec block_expand ::
  "nat \<Rightarrow> blendfile \<Rightarrow> (block \<Rightarrow> xstate \<Rightarrow> error + xstate) \<Rightarrow> block \<Rightarrow> xstate
    \<Rightarrow> error + xstate" where
  "block_expand 0 h em blk st = Inl OutOfFuel"
| "block_expand (Suc n) h em blk st =
     bind_e (expand_codes_add_test blk st) (\<lambda>(is_new, st1).
       if is_new then
         bind_e (em blk st1) (\<lambda>st2.
           case map_of
                  (expand_funcs n snd h
                     (\<lambda>sub_block st3.
                        case sub_block of
                          None \<Rightarrow> Inr st3
                        | Some sb \<Rightarrow> block_expand n h em sb st3))
                  (b_code blk) of
             None \<Rightarrow> Inr st2
           | Some fn \<Rightarrow> fn blk st2)
       else em blk st1)"

definition iter_blocks_id ::
  "nat \<Rightarrow> blendfile \<Rightarrow> bool \<Rightarrow> names option \<Rightarrow> (block \<Rightarrow> xstate \<Rightarrow> error + xstate)
    \<Rightarrow> bytes \<Rightarrow> xstate \<Rightarrow> error + xstate" where
  "iter_blocks_id n h expanding block_codes em c st =
     (case block_codes of
        None \<Rightarrow> for_each em (find_blocks_from_code h c) st
      | Some codes \<Rightarrow>
          for_each
            (\<lambda>blk st1.
               bind_e (block_get (snd st1) blk ''id.name'') (\<lambda>name.
                 if name \<in> codes then
                   (if expanding then block_expand n h em blk st1 else em blk st1)
                 else Inr st1))
            (find_blocks_from_code h c) st)"

text \<open>The loop over \<open>blend.code_index.keys()\<close>.\<close>

definition scan_codes ::
  "nat \<Rightarrow> blendfile \<Rightarrow> bool \<Rightarrow> names option \<Rightarrow> (block \<Rightarrow> xstate \<Rightarrow> error + xstate)
    \<Rightarrow> xstate \<Rightarrow> error + xstate" where
  "scan_codes n h expanding block_codes em st =
     for_each
       (\<lambda>c st1.
          if length c \<noteq> 2 \<or> c \<in> {''LI'', ''ID'', ''WM'', ''SN''} then Inr st1
          else iter_blocks_id n h expanding block_codes em c st1)
       (code_index_keys h) st"

text \<open>\<open>lib_all.setdefault(lib_path, set()).add(name)\<close> on a dictionary in insertion order.\<close>

definition lib_all_add ::
  "fieldval \<Rightarrow> fieldval \<Rightarrow> (fieldval \<times> names) list \<Rightarrow> (fieldval \<times> names) list" where
  "lib_all_add lib_path name lib_all =
     (if lib_path \<in> fst ` set lib_all
      then map (\<lambda>(p, s). if p = lib_path then (p, insert name s) else (p, s)) lib_all
      else lib_all @ [(lib_path, {name})])"

text \<open>One round of the loop over \<open>iter_blocks_lib()\<close>, with the filter of that generator.\<close>

definition lib_all_step ::
  "blendfile \<Rightarrow> names option \<Rightarrow> world \<Rightarrow> block \<Rightarrow> (fieldval \<times> names) list
    \<Rightarrow> error + (fieldval \<times> names) list" where
  "lib_all_step h expand_codes w blk lib_all =
     bind_e (case expand_codes of
               None \<Rightarrow> Inr True
             | Some ec \<Rightarrow> bind_e (block_get w blk ''name'') (\<lambda>name. Inr (name \<in> ec)))
       (\<lambda>selected.
          if \<not> selected then Inr lib_all
          else
            bind_e (block_get w blk ''lib'') (\<lambda>lib_id.
              case lib_id of
                VBytes x \<Rightarrow> Inl TypeError
              | VInt a \<Rightarrow>
                  (case find_block_from_offset h a of
                     None \<Rightarrow> Inl TypeError
                   | Some lib \<Rightarrow>
                       bind_e (block_get w lib ''name'') (\<lambda>lib_path.
                         bind_e (block_get w blk ''name'') (\<lambda>name.
                           Inr (lib_all_add lib_path name lib_all))))))"

definition build_lib_all ::
  "blendfile \<Rightarrow> names option \<Rightarrow> world \<Rightarrow> error + (fieldval \<times> names) list" where
  "build_lib_all h expand_codes w =
     for_each (lib_all_step h expand_codes w) (find_blocks_from_code h ''ID'') []"

text \<open>
  The loop over \<open>lib_all.items()\<close>. The registry \<open>lib_visit\<close> is \<open>None\<close> when the caller
  passed none; \<open>visit\<close> is the recursive call.
\<close>

fun lib_loop ::
  "(bytes \<Rightarrow> names \<Rightarrow> world \<Rightarrow> error + world) \<Rightarrow> bytes \<Rightarrow> bytes \<Rightarrow> nat
    \<Rightarrow> (fieldval \<times> names) list \<Rightarrow> (bytes \<rightharpoonup> names) option \<Rightarrow> world \<Rightarrow> error + world" where
  "lib_loop visit basedir filepath level [] lib_visit w = Inr w"
| "lib_loop visit basedir filepath level ((lib_path, lib_block_codes) # rest) lib_visit w =
     (case lib_path of
        VInt a \<Rightarrow> Inl AttributeError
      | VBytes p \<Rightarrow>
          let lib_path_abs = abspath p basedir in
          case lib_visit of
            None \<Rightarrow> Inl AttributeError
          | Some reg \<Rightarrow>
              let lib_block_codes_existing =
                    (case reg lib_path_abs of None \<Rightarrow> {} | Some s \<Rightarrow> s);
                  remaining = lib_block_codes - lib_block_codes_existing;
                  reg1 = reg(lib_path_abs \<mapsto> lib_block_codes_existing \<union> remaining);
                  w1 = print (Library level filepath lib_path_abs remaining) w
              in bind_e (visit lib_path_abs remaining w1)
                   (lib_loop visit basedir filepath level rest (Some reg1)))"

text \<open>
  The part of one call between \<open>open_blend\<close> and \<open>blend.close()\<close>: the scan of the type
  tags, the table of libraries, the library records. It returns the table.
\<close>

definition visit_file ::
  "nat \<Rightarrow> blendfile \<Rightarrow> consumer \<Rightarrow> bool \<Rightarrow> nat \<Rightarrow> names option \<Rightarrow> bytes \<Rightarrow> bytes \<Rightarrow> world
    \<Rightarrow> error + ((fieldval \<times> names) list \<times> world)" where
  "visit_file n h k recursive level block_codes basedir rootdir w =
     (let expanding = (recursive \<and> level > 0 \<and> block_codes \<noteq> None);
          em = emit_x k basedir rootdir
      in bind_e (scan_codes n h expanding block_codes em ({}, w)) (\<lambda>st1.
           bind_e (if recursive
                   then build_lib_all h (if expanding then Some (fst st1) else None) (snd st1)
                   else Inr [])
             (\<lambda>lib_all.
                bind_e (iter_blocks_id n h expanding block_codes em ''LI'' st1) (\<lambda>st2.
                  Inr (lib_all, snd st2)))))"

primrec visit_from_blend ::
  "nat \<Rightarrow> bytes \<Rightarrow> consumer \<Rightarrow> bytes \<Rightarrow> bool \<Rightarrow> remap_cb option \<Rightarrow> bool \<Rightarrow> names option
    \<Rightarrow> bytes option \<Rightarrow> nat \<Rightarrow> (bytes \<rightharpoonup> names) option \<Rightarrow> world \<Rightarrow> error + world" where
  "visit_from_blend 0 cwd k filepath readonly temp_remap_cb recursive block_codes rootdir
     level lib_visit w = Inl OutOfFuel"
| "visit_from_blend (Suc n) cwd k filepath readonly temp_remap_cb recursive block_codes rootdir
     level lib_visit w =
     (let w0 = print (Opening level filepath block_codes) w;
          basedir = os_path_dirname (os_path_abspath cwd filepath);
          rootdir1 = (case rootdir of None \<Rightarrow> basedir | Some r \<Rightarrow> r)
      in bind_e (case temp_remap_cb of
                   Some cb \<Rightarrow> cb filepath w0
                 | None \<Rightarrow> Inr (filepath, w0))
           (\<lambda>(filepath_tmp, w1).
              bind_e (open_blend filepath_tmp readonly w1) (\<lambda>(blend, w2).
                bind_e (visit_file n blend k recursive level block_codes basedir rootdir1 w2)
                  (\<lambda>(lib_all, w3).
                     if recursive then
                       lib_loop
                         (\<lambda>lib_path_abs lib_block_codes.
                            visit_from_blend n cwd k lib_path_abs readonly temp_remap_cb True
                              (Some lib_block_codes) (Some rootdir1) (level + 1) None)
                         basedir filepath level lib_all lib_visit w3
                     else Inr w3))))"

section \<open>pack\<close>

text \<open>
  \<open>shutil.copy\<close> and \<open>shutil.move\<close> on the flat file system: a missing source raises, and
  so does a copy of a file onto itself.
\<close>

definition shutil_copy :: "bytes \<Rightarrow> bytes \<Rightarrow> world \<Rightarrow> error + world" where
  "shutil_copy src dst w =
     (case fs w src of
        None \<Rightarrow> Inl IOError
      | Some node \<Rightarrow>
          if src = dst then Inl SameFileError else Inr (w\<lparr>fs := (fs w)(dst \<mapsto> node)\<rparr>))"

definition shutil_move :: "bytes \<Rightarrow> bytes \<Rightarrow> world \<Rightarrow> error + world" where
  "shutil_move src dst w =
     (case fs w src of
        None \<Rightarrow> Inl IOError
      | Some node \<Rightarrow> Inr (w\<lparr>fs := ((fs w)(src := None))(dst \<mapsto> node)\<rparr>))"

definition temp_remap_cb :: "bytes \<Rightarrow> bytes \<Rightarrow> world \<Rightarrow> error + (bytes \<times> world)" where
  "temp_remap_cb base_dir_dst filepath w =
     (let filepath_tmp = os_path_join base_dir_dst (os_path_basename filepath) @ ''@''
      in if filepath_tmp \<notin> set (path_temp_files w) then
           bind_e (shutil_copy filepath filepath_tmp w) (\<lambda>w1.
             Inr (filepath_tmp,
                  w1\<lparr>path_temp_files := set_add filepath_tmp (path_temp_files w1)\<rparr>))
         else Inr (filepath_tmp, w))"

text \<open>The body of the loop of \<open>pack\<close> over the pairs that the generator yields.\<close>

definition path_base_of :: "bytes \<Rightarrow> bytes" where
  "path_base_of path_rel = last (split (CHR ''/'') (last (split (CHR 0x5C) path_rel)))"

definition pack_body :: "bytes \<Rightarrow> FilePath \<times> bytes \<Rightarrow> world \<Rightarrow> error + world" where
  "pack_body base_dir_dst r w =
     (let fp = fst r in
      bind_e (filepath_get fp w) (\<lambda>v.
        case v of
          VInt a \<Rightarrow> Inl AttributeError
        | VBytes path_rel \<Rightarrow>
            let path_base = path_base_of path_rel;
                path_src = abspath path_rel (fp_basedir fp);
                path_dst = os_path_join base_dir_dst path_base
            in bind_e (filepath_set fp (VBytes (''//'' @ path_base)) w) (\<lambda>w1.
                 Inr (w1\<lparr>path_copy_files :=
                           set_add (path_src, path_dst) (path_copy_files w1)\<rparr>))))"

text \<open>The loop that strips the \<open>@\<close> of the staged libraries.\<close>

definition move_temp_file :: "bytes \<Rightarrow> world \<Rightarrow> error + world" where
  "move_temp_file fn w = shutil_move fn (butlast fn) w"

text \<open>The loop over the copy plan.\<close>

definition copy_file :: "bytes \<times> bytes \<Rightarrow> world \<Rightarrow> error + world" where
  "copy_file sd w =
     (if fs w (fst sd) = None then Inr (print (SourceMissing (fst sd)) w)
      else shutil_copy (fst sd) (snd sd) (print (Copying (fst sd) (snd sd)) w))"

definition pack :: "nat \<Rightarrow> bytes \<Rightarrow> bytes \<Rightarrow> bytes \<Rightarrow> (bytes \<rightharpoonup> fnode) \<Rightarrow> error + world" where
  "pack n cwd blendfile_src blendfile_dst files =
     (let base_dir_dst = os_path_dirname blendfile_dst;
          w = \<lparr>fs = files, path_temp_files = [], path_copy_files = [], opened = [],
               yielded = [], printed = []\<rparr>
      in bind_e (visit_from_blend n cwd (pack_body base_dir_dst) blendfile_src False
                   (Some (temp_remap_cb base_dir_dst)) True None None 0 (Some Map.empty) w)
           (\<lambda>w1.
              bind_e (temp_remap_cb base_dir_dst blendfile_src w1) (\<lambda>(blendfile_dst_tmp, w2).
                bind_e (shutil_move blendfile_dst_tmp blendfile_dst w2) (\<lambda>w3.
                  let w4 = w3\<lparr>path_temp_files := removeAll blendfile_dst_tmp (path_temp_files w3)\<rparr>
                  in bind_e (for_each move_temp_file (path_temp_files w4) w4) (\<lambda>w5.
                       bind_e (for_each copy_file (path_copy_files w5) w5) (\<lambda>w6.
                         Inr (print (Written blendfile_dst) w6)))))))"

section \<open>Example inputs\<close>

text \<open>
  A scene with two images, one of which is missing on disk, as it lies in the staging
  copy while the generator visits it.
\<close>

definition ex_scene :: blenddata where
  "ex_scene =
     \<lparr>d_pointer_size = 8,
      d_blocks =
        [\<lparr>d_code = ''IM'', d_addr_old = 10, d_file_offset = 100,
          d_fields = [(''id.name'', VBytes ''IMtex''),
                      (''name'', VBytes ''//sub/dir/asset.png'')]\<rparr>,
         \<lparr>d_code = ''IM'', d_addr_old = 11, d_file_offset = 200,
          d_fields = [(''id.name'', VBytes ''IMgone''), (''name'', VBytes ''//gone.png'')]\<rparr>],
      d_pointers = []\<rparr>"

definition ex_scene_files :: "bytes \<rightharpoonup> fnode" where
  "ex_scene_files =
     [''/src/a.blend'' \<mapsto> Blend ex_scene, ''/src/sub/dir/asset.png'' \<mapsto> Other ''pixels'']"

definition ex_staged :: world where
  "ex_staged =
     \<lparr>fs = ex_scene_files(''/out/a.blend@'' \<mapsto> Blend ex_scene),
      path_temp_files = [''/out/a.blend@''], path_copy_files = [],
      opened = [(''/out/a.blend@'', False)], yielded = [], printed = []\<rparr>"

definition ex_image :: block where
  "ex_image =
     \<lparr>b_file = ''/out/a.blend@'', b_writable = True, b_index = 0, b_code = ''IM'',
      b_addr_old = 10, b_file_offset = 100\<rparr>"

definition ex_library :: block where
  "ex_library =
     \<lparr>b_file = ''/out/a.blend@'', b_writable = True, b_index = 7, b_code = ''LI'',
      b_addr_old = 70, b_file_offset = 700\<rparr>"

definition ex_object :: block where
  "ex_object =
     \<lparr>b_file = ''/out/a.blend@'', b_writable = True, b_index = 8, b_code = ''OB'',
      b_addr_old = 80, b_file_offset = 800\<rparr>"

definition ex_array :: block where
  "ex_array =
     \<lparr>b_file = ''/out/a.blend@'', b_writable = True, b_index = 9, b_code = ''DATA'',
      b_addr_old = 90, b_file_offset = 900\<rparr>"


text \<open>A mesh with two materials.\<close>

definition ex_mesh_file :: blenddata where
  "ex_mesh_file =
     \<lparr>d_pointer_size = 8,
      d_blocks =
        [\<lparr>d_code = ''ME'', d_addr_old = 10, d_file_offset = 100,
          d_fields = [(''id.name'', VBytes ''MECube''), (''totcol'', VInt 2), (''mat'', VInt 20)]\<rparr>,
         \<lparr>d_code = ''DATA'', d_addr_old = 20, d_file_offset = 200, d_fields = []\<rparr>,
         \<lparr>d_code = ''MA'', d_addr_old = 30, d_file_offset = 300,
          d_fields = [(''id.name'', VBytes ''MARed'')]\<rparr>,
         \<lparr>d_code = ''MA'', d_addr_old = 31, d_file_offset = 400,
          d_fields = [(''id.name'', VBytes ''MABlue'')]\<rparr>],
      d_pointers = [(200, 30), (208, 31)]\<rparr>"

definition ex_mesh_world :: world where
  "ex_mesh_world =
     \<lparr>fs = [''/lib/m.blend'' \<mapsto> Blend ex_mesh_file],
      path_temp_files = [], path_copy_files = [], opened = [(''/lib/m.blend'', True)],
      yielded = [], printed = []\<rparr>"

definition ex_mesh_blocks :: "block list" where
  "ex_mesh_blocks =
     [\<lparr>b_file = ''/lib/m.blend'', b_writable = False, b_index = 0, b_code = ''ME'',
       b_addr_old = 10, b_file_offset = 100\<rparr>,
      \<lparr>b_file = ''/lib/m.blend'', b_writable = False, b_index = 1, b_code = ''DATA'',
       b_addr_old = 20, b_file_offset = 200\<rparr>,
      \<lparr>b_file = ''/lib/m.blend'', b_writable = False, b_index = 2, b_code = ''MA'',
       b_addr_old = 30, b_file_offset = 300\<rparr>,
      \<lparr>b_file = ''/lib/m.blend'', b_writable = False, b_index = 3, b_code = ''MA'',
       b_addr_old = 31, b_file_offset = 400\<rparr>]"

definition ex_mesh_blend :: blendfile where
  "ex_mesh_blend = \<lparr>h_path = ''/lib/m.blend'', h_pointer_size = 8, h_blocks = ex_mesh_blocks\<rparr>"

text \<open>
  Two files that link the object \<open>OBCube\<close> from each other; each holds an object of
  that name of its own.
\<close>

definition ex_cycle_a :: blenddata where
  "ex_cycle_a =
     \<lparr>d_pointer_size = 8,
      d_blocks =
        [\<lparr>d_code = ''OB'', d_addr_old = 30, d_file_offset = 100,
          d_fields = [(''id.name'', VBytes ''OBCube''), (''data'', VInt 0)]\<rparr>,
         \<lparr>d_code = ''LI'', d_addr_old = 10, d_file_offset = 200,
          d_fields = [(''id.name'', VBytes ''LIb.blend''), (''name'', VBytes ''//b.blend'')]\<rparr>,
         \<lparr>d_code = ''ID'', d_addr_old = 20, d_file_offset = 300,
          d_fields = [(''name'', VBytes ''OBCube''), (''lib'', VInt 10)]\<rparr>],
      d_pointers = []\<rparr>"

definition ex_cycle_b :: blenddata where
  "ex_cycle_b =
     \<lparr>d_pointer_size = 8,
      d_blocks =
        [\<lparr>d_code = ''OB'', d_addr_old = 30, d_file_offset = 100,
          d_fields = [(''id.name'', VBytes ''OBCube''), (''data'', VInt 0)]\<rparr>,
         \<lparr>d_code = ''LI'', d_addr_old = 10, d_file_offset = 200,
          d_fields = [(''id.name'', VBytes ''LIa.blend''), (''name'', VBytes ''//a.blend'')]\<rparr>,
         \<lparr>d_code = ''ID'', d_addr_old = 20, d_file_offset = 300,
          d_fields = [(''name'', VBytes ''OBCube''), (''lib'', VInt 10)]\<rparr>],
      d_pointers = []\<rparr>"

definition ex_cycle_files :: "bytes \<rightharpoonup> fnode" where
  "ex_cycle_files = [''/src/a.blend'' \<mapsto> Blend ex_cycle_a, ''/src/b.blend'' \<mapsto> Blend ex_cycle_b]"











section \<open>Auxiliary notions for the statements\<close>





section \<open>Properties of the path functions\<close>

lemma startswith_iff_take: "startswith s p \<longleftrightarrow> take (length p) s = p"
  by (induction s p rule: startswith.induct) auto

lemma split_nonempty: "split sep s \<noteq> []"
  by (induction s) (auto split: list.splits)

lemma split_no_sep: "sep \<notin> set s \<Longrightarrow> split sep s = [s]"
  by (induction s) auto

lemma split_has_sep: "sep \<in> set s \<Longrightarrow> tl (split sep s) \<noteq> []"
  by (induction s) (auto simp: split_nonempty split: list.splits)

lemma last_split: "last (split sep s) = rev (takeWhile (\<lambda>c. c \<noteq> sep) (rev s))"
proof (induction s)
  case Nil
  then show ?case by simp
next
  case (Cons c s)
  show ?case
  proof (cases "sep \<in> set s")
    case True
    then have "tl (split sep s) \<noteq> []" by (rule split_has_sep)
    then have "last (split sep (c # s)) = last (split sep s)"
      by (auto simp: split_nonempty split: list.splits)
    moreover have "takeWhile (\<lambda>c. c \<noteq> sep) (rev s @ [c]) = takeWhile (\<lambda>c. c \<noteq> sep) (rev s)"
      using True by (intro takeWhile_append1[of sep]) auto
    ultimately show ?thesis using Cons by simp
  next
    case False
    then have "split sep s = [s]" by (rule split_no_sep)
    moreover have "takeWhile (\<lambda>c. c \<noteq> sep) (rev s @ [c]) = rev s @ takeWhile (\<lambda>c. c \<noteq> sep) [c]"
      using False by (intro takeWhile_append2) auto
    ultimately show ?thesis by auto
  qed
qed

lemma takeWhile_twice: "takeWhile Q (takeWhile P xs) = takeWhile (\<lambda>x. P x \<and> Q x) xs"
  by (induction xs) auto

lemma path_base_of_eq:
  "path_base_of p = rev (takeWhile (\<lambda>c. c \<noteq> CHR 0x5C \<and> c \<noteq> CHR ''/'') (rev p))"
  by (simp add: path_base_of_def last_split takeWhile_twice)








section \<open>Properties of the block store\<close>

lemma map_of_set_field:
  "map_of xs name = Some old \<Longrightarrow>
   map_of (map (\<lambda>(n, x). if n = name then (n, v) else (n, x)) xs) name = Some v"
  by (induction xs) (auto split: if_splits)

lemma block_get_after_set:
  assumes "block_set b name v w = Inr w'"
  shows "block_get w' b name = Inr v"
  using assms
  by (auto simp: block_set_def block_get_def block_data_def bind_e_def set_field_def
      map_of_set_field split: if_splits option.splits fnode.splits)

lemma block_set_succeeds:
  assumes "block_get w b name = Inr old" "b_writable b"
  shows "\<exists>w'. block_set b name v w = Inr w'"
  using assms
  by (auto simp: block_set_def block_get_def block_data_def bind_e_def
      split: if_splits option.splits fnode.splits sum.splits)

lemma block_set_keeps_plan:
  "block_set b name v w = Inr w' \<Longrightarrow>
   path_copy_files w' = path_copy_files w \<and> path_temp_files w' = path_temp_files w \<and>
   opened w' = opened w \<and> yielded w' = yielded w \<and> printed w' = printed w"
  by (auto simp: block_set_def split: if_splits option.splits fnode.splits)


section \<open>Invariants of the traversal\<close>

text \<open>
  What the consumer preserves at every yield, the traversal of one file preserves: \<open>I\<close>
  is the invariant of the world, \<open>B\<close> holds of the records that may be yielded.
\<close>

lemma expand_ME_no_yield: "expand_ME getw h yield blk st = Inr st' \<Longrightarrow> st' = st"
  by (auto simp: expand_ME_def bind_e_def split: sum.splits if_splits)

















section \<open>Unfolding a run on a concrete input\<close>

lemmas pack_defs =
  pack_def visit_file_def scan_codes_def iter_blocks_id_def build_lib_all_def
  lib_all_step_def lib_all_add_def emit_x_def emit_def yield_to_def from_block_def
  from_block_dict_def from_block_IM_def from_block_LI_def open_blend_def mk_block_def
  code_index_keys_def find_blocks_from_code_def find_block_from_offset_def block_get_def
  block_data_def block_set_def set_field_def get_pointer_def temp_remap_cb_def
  shutil_copy_def shutil_move_def pack_body_def path_base_of_def filepath_get_def
  filepath_set_def move_temp_file_def copy_file_def print_def set_add_def bind_e_def
  abspath_def os_path_join_def os_path_basename_def os_path_dirname_def os_path_abspath_def
  os_path_normpath_def expand_codes_add_test_def expand_funcs_def expand_OB_def
  expand_ME_def expand_MA_def expand_TE_def expand_GR_def iter_array_def read_pointer_def
  Let_def


section \<open>The records that emit a path reference\<close>

text \<open>
  C7: an image record (tag \<open>IM\<close>) emits exactly one path reference, over its field
  \<open>name\<close>; a library record (tag \<open>LI\<close>) emits exactly one, over its field \<open>name\<close>; a
  record of any other tag emits none. For the tag \<open>DATA\<close> the assertion at the head of
  \<open>from_block\<close> fails, so nothing is emitted there either.
\<close>

theorem from_block_emission:
  "(b_code blk = ''IM'' \<longrightarrow>
      from_block blk basedir rootdir =
        Inr [(\<lparr>fp_block = blk, fp_path = ''name'', fp_basedir = basedir\<rparr>, rootdir)]) \<and>
   (b_code blk = ''LI'' \<longrightarrow>
      from_block blk basedir rootdir =
        Inr [(\<lparr>fp_block = blk, fp_path = ''name'', fp_basedir = basedir\<rparr>, rootdir)]) \<and>
   (b_code blk \<notin> {''IM'', ''LI'', ''DATA''} \<longrightarrow> from_block blk basedir rootdir = Inr []) \<and>
   (b_code blk = ''DATA'' \<longrightarrow> from_block blk basedir rootdir = Inl AssertionError)"
  by (simp add: from_block_def from_block_dict_def from_block_IM_def from_block_LI_def)

theorem from_block_emission_witness:
  "from_block ex_image ''/src'' ''/src'' =
     Inr [(\<lparr>fp_block = ex_image, fp_path = ''name'', fp_basedir = ''/src''\<rparr>, ''/src'')] \<and>
   from_block ex_library ''/src'' ''/src'' =
     Inr [(\<lparr>fp_block = ex_library, fp_path = ''name'', fp_basedir = ''/src''\<rparr>, ''/src'')] \<and>
   from_block ex_object ''/src'' ''/src'' = Inr [] \<and>
   from_block ex_array ''/src'' ''/src'' = Inl AssertionError"
  using from_block_emission [of ex_image "''/src''" "''/src''"]
    from_block_emission [of ex_library "''/src''" "''/src''"]
    from_block_emission [of ex_object "''/src''" "''/src''"]
    from_block_emission [of ex_array "''/src''" "''/src''"]
  by (simp add: ex_image_def ex_library_def ex_object_def ex_array_def)

section \<open>The mesh rule\<close>

text \<open>
  C3, as the code has it: the mesh rule yields no record, whatever the material count.
  For a count of zero it returns at once; for another count it walks the material array
  (as many elements as the count says, one pointer size apart) and returns without a
  yield when the walk succeeds.
\<close>

theorem expand_ME_yields_nothing:
  "(\<forall>ys. yields_of expand_ME w h blk = Inr ys \<longrightarrow> ys = []) \<and>
   (block_get w blk ''totcol'' = Inr (VInt 0) \<longrightarrow> yields_of expand_ME w h blk = Inr []) \<and>
   (\<forall>n mat items. block_get w blk ''totcol'' = Inr (VInt n) \<and> n \<noteq> 0 \<and>
        get_pointer w h blk ''mat'' = Inr mat \<and> iter_array w h mat (VInt n) = Inr items \<longrightarrow>
        yields_of expand_ME w h blk = Inr [])"
proof (intro conjI allI impI)
  fix ys assume "yields_of expand_ME w h blk = Inr ys"
  then show "ys = []"
    by (auto simp: yields_of_def bind_e_def split: sum.splits dest!: expand_ME_no_yield)
next
  assume "block_get w blk ''totcol'' = Inr (VInt 0)"
  then show "yields_of expand_ME w h blk = Inr []"
    by (simp add: yields_of_def expand_ME_def bind_e_def)
next
  fix n mat items
  assume "block_get w blk ''totcol'' = Inr (VInt n) \<and> n \<noteq> 0 \<and>
        get_pointer w h blk ''mat'' = Inr mat \<and> iter_array w h mat (VInt n) = Inr items"
  then show "yields_of expand_ME w h blk = Inr []"
    by (simp add: yields_of_def expand_ME_def bind_e_def)
qed

lemmas ex_mesh_defs =
  ex_mesh_world_def ex_mesh_file_def ex_mesh_blend_def ex_mesh_blocks_def
  block_get_def block_data_def get_pointer_def find_block_from_offset_def iter_array_def
  read_pointer_def bind_e_def

lemma ex_mesh_array:
  "iter_array ex_mesh_world ex_mesh_blend (Some (ex_mesh_blocks ! 1)) (VInt 2) =
     Inr [Some (ex_mesh_blocks ! 2), Some (ex_mesh_blocks ! 3)]"
  by (simp add: ex_mesh_defs upt_rec)

theorem expand_ME_yields_nothing_witness:
  "block_get ex_mesh_world (ex_mesh_blocks ! 0) ''totcol'' = Inr (VInt 2) \<and>
   yields_of expand_ME ex_mesh_world ex_mesh_blend (ex_mesh_blocks ! 0) = Inr []"
proof -
  have "block_get ex_mesh_world (ex_mesh_blocks ! 0) ''totcol'' = Inr (VInt 2)"
    by (simp add: ex_mesh_defs)
  moreover have "get_pointer ex_mesh_world ex_mesh_blend (ex_mesh_blocks ! 0) ''mat'' =
      Inr (Some (ex_mesh_blocks ! 1))"
    by (simp add: ex_mesh_defs)
  ultimately show ?thesis
    using ex_mesh_array
      expand_ME_yields_nothing [of ex_mesh_world ex_mesh_blend "ex_mesh_blocks ! 0"]
    by (metis fieldval.inject(2) zero_neq_numeral)
qed

text \<open>
  The claim as the spec states it fails: the mesh of the example has a material count of
  two and its material array holds two material records, and the rule yields neither.
\<close>

theorem expand_ME_counterexample:
  "block_get ex_mesh_world (ex_mesh_blocks ! 0) ''totcol'' = Inr (VInt 2) \<and>
   get_pointer ex_mesh_world ex_mesh_blend (ex_mesh_blocks ! 0) ''mat'' =
     Inr (Some (ex_mesh_blocks ! 1)) \<and>
   iter_array ex_mesh_world ex_mesh_blend (Some (ex_mesh_blocks ! 1)) (VInt 2) =
     Inr [Some (ex_mesh_blocks ! 2), Some (ex_mesh_blocks ! 3)] \<and>
   yields_of expand_ME ex_mesh_world ex_mesh_blend (ex_mesh_blocks ! 0) \<noteq>
     Inr [Some (ex_mesh_blocks ! 2), Some (ex_mesh_blocks ! 3)] \<and>
   yields_of expand_ME ex_mesh_world ex_mesh_blend (ex_mesh_blocks ! 0) = Inr []"
  by (simp add: ex_mesh_defs yields_of_def expand_ME_def upt_rec)

section \<open>The staging hook\<close>




section \<open>The body of the loop of pack\<close>

text \<open>
  C5: for a reference whose stored path is \<open>path_rel\<close>, on a record open for writing,
  the body of the loop succeeds; the basename is what follows the last slash or
  backslash of \<open>path_rel\<close>; the stored path becomes \<open>//\<close> followed by that basename; and
  the pair of the path resolved against the directory bound to the reference and of the
  basename joined onto the destination directory is added to the copy plan.
\<close>

theorem pack_body_flattens:
  assumes "filepath_get fp w = Inr (VBytes path_rel)" and "b_writable (fp_block fp)"
  shows "\<exists>w'. pack_body d (fp, rootdir) w = Inr w' \<and>
           path_base_of path_rel =
             rev (takeWhile (\<lambda>c. c \<noteq> CHR 0x5C \<and> c \<noteq> CHR ''/'') (rev path_rel)) \<and>
           filepath_get fp w' = Inr (VBytes (''//'' @ path_base_of path_rel)) \<and>
           set (path_copy_files w') =
             insert (abspath path_rel (fp_basedir fp), os_path_join d (path_base_of path_rel))
               (set (path_copy_files w))"
proof -
  from assms obtain w1 where
    w1: "filepath_set fp (VBytes (''//'' @ path_base_of path_rel)) w = Inr w1"
    unfolding filepath_get_def filepath_set_def using block_set_succeeds by blast
  then have get: "block_get w1 (fp_block fp) (fp_path fp) =
      Inr (VBytes (''//'' @ path_base_of path_rel))"
    and plan: "path_copy_files w1 = path_copy_files w"
    unfolding filepath_set_def using block_get_after_set block_set_keeps_plan by blast+
  let ?w' = "w1\<lparr>path_copy_files :=
      set_add (abspath path_rel (fp_basedir fp), os_path_join d (path_base_of path_rel))
        (path_copy_files w1)\<rparr>"
  have "pack_body d (fp, rootdir) w = Inr ?w'"
    using assms(1) w1 by (simp add: pack_body_def bind_e_def Let_def)
  moreover have "filepath_get fp ?w' = Inr (VBytes (''//'' @ path_base_of path_rel))"
    using get by (simp add: filepath_get_def block_get_def block_data_def)
  moreover have "set (path_copy_files ?w') =
      insert (abspath path_rel (fp_basedir fp), os_path_join d (path_base_of path_rel))
        (set (path_copy_files w))"
    using plan by (auto simp: set_add_def)
  ultimately show ?thesis
    using path_base_of_eq by blast
qed

theorem pack_body_flattens_witness:
  "\<exists>w'. pack_body ''/out''
           (\<lparr>fp_block = ex_image, fp_path = ''name'', fp_basedir = ''/src''\<rparr>, ''/src'')
           ex_staged = Inr w' \<and>
         filepath_get \<lparr>fp_block = ex_image, fp_path = ''name'', fp_basedir = ''/src''\<rparr> w' =
           Inr (VBytes ''//asset.png'') \<and>
         set (path_copy_files w') = {(''/src/sub/dir/asset.png'', ''/out/asset.png'')}"
proof -
  let ?fp = "\<lparr>fp_block = ex_image, fp_path = ''name'', fp_basedir = ''/src''\<rparr>"
  have get: "filepath_get ?fp ex_staged = Inr (VBytes ''//sub/dir/asset.png'')"
    by (simp add: filepath_get_def block_get_def block_data_def bind_e_def ex_staged_def
        ex_image_def ex_scene_def)
  have wr: "b_writable (fp_block ?fp)"
    by (simp add: ex_image_def)
  have base: "path_base_of ''//sub/dir/asset.png'' = ''asset.png''"
    by (simp add: path_base_of_def)
  have plan: "path_copy_files ex_staged = []"
    by (simp add: ex_staged_def)
  show ?thesis
    using pack_body_flattens [OF get wr, of "''/out''" "''/src''"]
    by (simp add: base plan abspath_def os_path_join_def)
qed

section \<open>The copy plan\<close>






section \<open>pack writes inside the destination directory only\<close>













section \<open>Runs of pack on the examples\<close>



section \<open>Libraries that link each other\<close>

text \<open>
  C1 fails on the code: the recursive call of \<open>visit_from_blend\<close> does not pass the
  registry on, so one level down \<open>lib_visit\<close> is \<open>None\<close>, and the first library that a
  library links raises \<open>AttributeError\<close> at \<open>lib_visit.setdefault\<close>. Two files that link
  each other make \<open>pack\<close> fail in this way.
\<close>

theorem pack_cycle_raises:
  "pack 3 ''/'' ''/src/a.blend'' ''/out/a.blend'' ex_cycle_files = Inl AttributeError"
  by (simp add: pack_defs ex_cycle_files_def ex_cycle_a_def ex_cycle_b_def numeral_3_eq_3)

section \<open>A library reached twice\<close>
















section \<open>The order of the references of one file\<close>














section \<open>utils.abspath resolves the relative marker\<close>

text \<open>
  C9: a path that begins with the two-byte marker \<open>//\<close> resolves to the rest of the
  path, after the marker, joined onto the base directory by \<open>os.path.join\<close>; any other
  path is returned as it is.
\<close>

theorem abspath_resolution:
  "abspath (''//'' @ rest) start = os_path_join start rest \<and>
   ((\<nexists>r. path = ''//'' @ r) \<longrightarrow> abspath path start = path)"
proof -
  have "startswith path ''//'' \<Longrightarrow> \<exists>r. path = ''//'' @ r"
    by (metis append_take_drop_id startswith_iff_take)
  then show ?thesis
    by (auto simp: abspath_def)
qed

theorem abspath_resolution_witness:
  "abspath ''//sub/a.png'' ''/src'' = ''/src/sub/a.png'' \<and>
   abspath ''/abs/a.png'' ''/src'' = ''/abs/a.png''"
  using abspath_resolution [of "''sub/a.png''" "''/src''" "''/abs/a.png''"]
  by (simp add: os_path_join_def)

end
